theory Spec2Isabelle
  imports Main "HOL-Library.Sublist" "HOL-Library.Multiset"
begin

section \<open>JavaScript values used by both components\<close>

text \<open>
  A value of TypeScript type \<open>string | null | undefined\<close> is a \<open>string option\<close>
  (\<open>None\<close> for \<open>null\<close> and \<open>undefined\<close>). Such a value is falsy when it is
  \<open>null\<close>, \<open>undefined\<close> or the empty string; \<open>!v\<close>, \<open>if (v)\<close> and
  \<open>v || w\<close> all test exactly this.
\<close>

definition truthy :: "string option \<Rightarrow> bool" where
  "truthy v = (case v of None \<Rightarrow> False | Some s \<Rightarrow> s \<noteq> [])"


text \<open>The exceptions the modelled code can meet.\<close>

datatype js_error =
    TypeError      \<comment> \<open>property read on \<open>null\<close> or \<open>undefined\<close>\<close>
  | NetworkError   \<comment> \<open>\<open>fetch\<close> rejected\<close>
  | SyntaxError    \<comment> \<open>\<open>response.json()\<close> rejected\<close>

section \<open>The visibility hook \<open>useChatVisibility\<close>\<close>

text \<open>
  Modelled from the spec: the type \<open>VisibilityType\<close> is declared in
  \<open>components/visibility-selector\<close>, which is not among the sources; the spec gives
  it as an enumeration with the values \<open>private\<close> and \<open>public\<close>.
\<close>

datatype VisibilityType = Private | Public

text \<open>
  Modelled from the spec: the type \<open>ChatHistory\<close> is declared in
  \<open>components/sidebar-history\<close>, which is not among the sources; the spec gives it
  as a history list whose entries record a visibility. An entry has the three fields
  the hook reads: \<open>id\<close>, \<open>visibility\<close> and \<open>workspaceId\<close>.
\<close>

record HistoryChat =
  h_id :: string
  h_visibility :: VisibilityType
  h_workspaceId :: "string option"

record ChatHistory =
  h_chats :: "HistoryChat list"

text \<open>
  \<open>useSWR(`${chatId}-visibility`, null, {fallbackData: initialVisibilityType})\<close>:
  the data of the local key when the cache holds some, else the fallback data.
\<close>

definition localVisibility :: "VisibilityType option \<Rightarrow> VisibilityType \<Rightarrow> VisibilityType" where
  "localVisibility cached initialVisibilityType =
     (case cached of None \<Rightarrow> initialVisibilityType | Some v \<Rightarrow> v)"

text \<open>
  The memoised value \<open>visibilityType\<close>. \<open>history\<close> is
  \<open>cache.get('/api/history')?.data\<close>, \<open>None\<close> when the cache has no such entry.
\<close>

definition visibilityType :: "ChatHistory option \<Rightarrow> string \<Rightarrow> VisibilityType \<Rightarrow> VisibilityType" where
  "visibilityType history chatId localVis =
     (case history of
        None \<Rightarrow> localVis
      | Some h \<Rightarrow>
          (case find (\<lambda>chat. h_id chat = chatId) (h_chats h) of
             None \<Rightarrow> Private
           | Some chat \<Rightarrow> h_visibility chat))"


text \<open>
  What the hook reads from its surroundings: its \<open>workspaceId\<close> parameter, the cached
  history, whether \<open>window\<close> is defined, and the item \<open>sunsetLastWorkspace\<close> of
  \<open>localStorage\<close> (\<open>None\<close> when \<open>getItem\<close> returns \<open>null\<close>).
\<close>

record hook_env =
  workspaceId :: "string option"
  history :: "ChatHistory option"
  window_defined :: bool
  sunsetLastWorkspace :: "string option"




section \<open>The memory graph dialog: data\<close>

text \<open>The pagination descriptor of a documents response; its fields are numbers.\<close>

record Pagination =
  p_currentPage :: int
  p_totalPages :: int
  p_totalItems :: int
  p_limit :: int

text \<open>
  What \<open>fetchDocuments\<close> hands to its callers: \<open>JNull\<close> is the value \<open>null\<close>
  (reading a property of it throws a \<open>TypeError\<close>); \<open>JObj docs pag\<close> is any other
  value, \<open>docs\<close> its \<open>documents\<close> array (\<open>None\<close> when the property is missing
  or falsy) and \<open>pag\<close> its \<open>pagination\<close> object (\<open>None\<close> when it is
  \<open>null\<close> or missing, so that reading \<open>pagination.currentPage\<close> throws).
  The documents themselves are opaque: the type \<open>'d\<close>.
\<close>

datatype 'd body = JNull | JObj "'d list option" "Pagination option"

text \<open>The JSON body of the request \<open>POST /api/documents\<close>.\<close>

record doc_request =
  r_page :: int
  r_limit :: int
  r_sort :: string
  r_order :: string
  r_chatId :: string

text \<open>
  How one \<open>POST /api/documents\<close> can end: \<open>fetch\<close> rejects; the response is not
  \<open>ok\<close> (with its status, and its text unless \<open>response.text()\<close> rejects);
  \<open>response.json()\<close> rejects; or the body parses to a value.
\<close>

datatype 'd response =
    FetchRejected
  | NotOk int "string option"
  | JsonRejected
  | OkJson "'d body"

text \<open>The entries of the chat list, with \<open>createdAt\<close> as the comparator of the sort
  reads it: \<open>new Date(createdAt).getTime()\<close>, \<open>None\<close> when that is \<open>NaN\<close>.
  The title is a list of UTF-16 code units; a missing or \<open>null\<close> title is
  \<open>None\<close>.\<close>

record Chat =
  c_id :: string
  c_title :: "nat list option"
  c_createdAt :: "int option"


text \<open>The calls the dialog makes to the outside: the console and the network.\<close>

datatype call =
    ConsoleWarn string
  | ConsoleError string
  | PostDocuments doc_request
  | GetHistory string

text \<open>
  The state variables of the component that the loading functions read and write
  (\<open>internalOpen\<close> only shows and hides the dialog).
\<close>

record 'd dialog =
  documents :: "'d list"
  isLoading :: bool
  isLoadingMore :: bool
  error :: "js_error option"
  currentPage :: int
  hasMore :: bool
  totalLoaded :: nat
  chats :: "Chat list"
  selectedChatId :: "string option"

text \<open>The initial values given to \<open>useState\<close>.\<close>

definition initial_dialog :: "'d dialog" where
  "initial_dialog =
     \<lparr>documents = [], isLoading = False, isLoadingMore = False, error = None,
      currentPage = 1, hasMore = True, totalLoaded = 0, chats = [],
      selectedChatId = None\<rparr>"

section \<open>The memory graph dialog: fetching documents\<close>

text \<open>The object returned by \<open>fetchDocuments\<close> on each of its three failure paths.\<close>

definition emptyResult :: "int \<Rightarrow> 'd body" where
  "emptyResult limit =
     JObj (Some [])
       (Some \<lparr>p_currentPage = 1, p_totalPages = 0, p_totalItems = 0, p_limit = limit\<rparr>)"

text \<open>The object given to \<open>JSON.stringify\<close> for the body of the request.\<close>

definition requestBody :: "int \<Rightarrow> int \<Rightarrow> string \<Rightarrow> doc_request" where
  "requestBody page limit chatId =
     \<lparr>r_page = page, r_limit = limit, r_sort = ''createdAt'', r_order = ''desc'',
      r_chatId = chatId\<rparr>"

text \<open>
  The \<open>try\<close> block of \<open>fetchDocuments\<close>: the calls made and either the exception
  thrown (\<open>Inl\<close>) or the value returned. \<open>net\<close> tells how each request ends.
\<close>

definition fetchDocuments_try ::
  "(doc_request \<Rightarrow> 'd response) \<Rightarrow> string \<Rightarrow> int \<Rightarrow> int \<Rightarrow> call list \<times> (js_error + 'd body)" where
  "fetchDocuments_try net chatId page limit =
     (let req = requestBody page limit chatId
      in case net req of
           FetchRejected \<Rightarrow> ([PostDocuments req], Inl NetworkError)
         | NotOk status text \<Rightarrow>
             ([PostDocuments req,
               ConsoleError ''[MemoryGraphDialog] Failed to fetch documents:''],
              Inr (emptyResult limit))
         | JsonRejected \<Rightarrow> ([PostDocuments req], Inl SyntaxError)
         | OkJson data \<Rightarrow> ([PostDocuments req], Inr data))"

text \<open>
  \<open>fetchDocuments(page, limit)\<close> for the current \<open>selectedChatId\<close>: the guard on
  the selection, then the \<open>try\<close> block with its \<open>catch\<close>. The result is a sum so
  that an exception leaving the function would be a value \<open>Inl\<close>.
\<close>

definition fetchDocuments ::
  "(doc_request \<Rightarrow> 'd response) \<Rightarrow> string option \<Rightarrow> int \<Rightarrow> int \<Rightarrow> call list \<times> (js_error + 'd body)" where
  "fetchDocuments net selected page limit =
     (case selected of
        None \<Rightarrow>
          ([ConsoleWarn ''[MemoryGraphDialog] No chat selected; skipping fetch.''],
           Inr (emptyResult limit))
      | Some chatId \<Rightarrow>
          if chatId = [] then
            ([ConsoleWarn ''[MemoryGraphDialog] No chat selected; skipping fetch.''],
             Inr (emptyResult limit))
          else
            (case fetchDocuments_try net chatId page limit of
               (calls, Inl err) \<Rightarrow>
                 (calls @ [ConsoleError ''[MemoryGraphDialog] Error fetching documents:''],
                  Inr (emptyResult limit))
             | (calls, Inr data) \<Rightarrow> (calls, Inr data)))"

text \<open>The network requests among the calls made.\<close>

fun requests :: "call list \<Rightarrow> doc_request list" where
  "requests [] = []"
| "requests (PostDocuments req # cs) = req # requests cs"
| "requests (c # cs) = requests cs"

section \<open>The memory graph dialog: the incremental loader\<close>

text \<open>The two state writes that open \<open>loadInitialDocuments\<close>.\<close>

definition loadInitial_begin :: "'d dialog \<Rightarrow> 'd dialog" where
  "loadInitial_begin s = s\<lparr>isLoading := True, error := None\<rparr>"

text \<open>
  The statements of its \<open>try\<close> block after the \<open>await\<close>, on the value
  \<open>data\<close>: the exception thrown, if any, and the state with the writes made until
  then.
\<close>

fun loadInitial_apply :: "'d body \<Rightarrow> 'd dialog \<Rightarrow> js_error option \<times> 'd dialog" where
  "loadInitial_apply JNull s = (Some TypeError, s)"
| "loadInitial_apply (JObj docs pag) s =
     (let ds = (case docs of None \<Rightarrow> [] | Some xs \<Rightarrow> xs);
          s1 = s\<lparr>documents := ds, totalLoaded := length ds, currentPage := 1\<rparr>
      in case pag of
           None \<Rightarrow> (Some TypeError, s1)
         | Some p \<Rightarrow> (None, s1\<lparr>hasMore := (p_currentPage p < p_totalPages p)\<rparr>))"

text \<open>\<open>loadInitialDocuments\<close>, with its \<open>catch\<close> and \<open>finally\<close>.\<close>

definition loadInitialDocuments ::
  "(doc_request \<Rightarrow> 'd response) \<Rightarrow> 'd dialog \<Rightarrow> call list \<times> 'd dialog" where
  "loadInitialDocuments net s =
     (let s0 = loadInitial_begin s;
          (calls, r) = fetchDocuments net (selectedChatId s) 1 500;
          (thrown, s1) = (case r of
                            Inl err \<Rightarrow> (Some err, s0)
                          | Inr data \<Rightarrow> loadInitial_apply data s0);
          s2 = (case thrown of None \<Rightarrow> s1 | Some err \<Rightarrow> s1\<lparr>error := Some err\<rparr>)
      in (calls, s2\<lparr>isLoading := False\<rparr>))"

text \<open>
  The statements of the \<open>try\<close> block of \<open>loadMoreDocuments\<close> after the
  \<open>await\<close>, on the value \<open>data\<close> and the page \<open>nextPage\<close> computed before it.
\<close>

fun loadMore_apply :: "int \<Rightarrow> 'd body \<Rightarrow> 'd dialog \<Rightarrow> js_error option \<times> 'd dialog" where
  "loadMore_apply nextPage JNull s = (Some TypeError, s)"
| "loadMore_apply nextPage (JObj None pag) s = (None, s\<lparr>hasMore := False\<rparr>)"
| "loadMore_apply nextPage (JObj (Some ds) pag) s =
     (if length ds > 0 then
        (let s1 = s\<lparr>documents := documents s @ ds,
                    totalLoaded := totalLoaded s + length ds,
                    currentPage := nextPage\<rparr>
         in case pag of
              None \<Rightarrow> (Some TypeError, s1)
            | Some p \<Rightarrow> (None, s1\<lparr>hasMore := (p_currentPage p < p_totalPages p)\<rparr>))
      else (None, s\<lparr>hasMore := False\<rparr>))"

text \<open>\<open>loadMoreDocuments\<close>: the guard, then the \<open>try\<close> block with its
  \<open>catch\<close> (which only logs) and \<open>finally\<close>.\<close>

definition loadMoreDocuments ::
  "(doc_request \<Rightarrow> 'd response) \<Rightarrow> 'd dialog \<Rightarrow> call list \<times> 'd dialog" where
  "loadMoreDocuments net s =
     (if isLoadingMore s \<or> \<not> hasMore s then ([], s)
      else
        (let s0 = s\<lparr>isLoadingMore := True\<rparr>;
             nextPage = currentPage s + 1;
             (calls, r) = fetchDocuments net (selectedChatId s) nextPage 100;
             (thrown, s1) = (case r of
                               Inl err \<Rightarrow> (Some err, s0)
                             | Inr data \<Rightarrow> loadMore_apply nextPage data s0);
             logged = (case thrown of
                         None \<Rightarrow> []
                       | Some err \<Rightarrow> [ConsoleError ''Error loading more documents:''])
         in (calls @ logged, s1\<lparr>isLoadingMore := False\<rparr>)))"


section \<open>The memory graph dialog: the chat list and the selection\<close>







text \<open>
  A consistent comparator on the set \<open>S\<close>, as ECMAScript defines it: equality
  under the comparator is reflexive, symmetric and transitive, and both strict orders
  are transitive.
\<close>

definition consistent :: "('a \<Rightarrow> 'a \<Rightarrow> int) \<Rightarrow> 'a set \<Rightarrow> bool" where
  "consistent cmp S \<longleftrightarrow>
     (\<forall>a \<in> S. cmp a a = 0)
     \<and> (\<forall>a \<in> S. \<forall>b \<in> S. cmp a b = 0 \<longrightarrow> cmp b a = 0)
     \<and> (\<forall>a \<in> S. \<forall>b \<in> S. \<forall>c \<in> S. cmp a b = 0 \<and> cmp b c = 0 \<longrightarrow> cmp a c = 0)
     \<and> (\<forall>a \<in> S. \<forall>b \<in> S. \<forall>c \<in> S. cmp a b < 0 \<and> cmp b c < 0 \<longrightarrow> cmp a c < 0)
     \<and> (\<forall>a \<in> S. \<forall>b \<in> S. \<forall>c \<in> S. cmp a b > 0 \<and> cmp b c > 0 \<longrightarrow> cmp a c > 0)"












section \<open>Reading the visibility\<close>

lemma find_first_chat:
  "\<exists>c \<in> set xs. P c \<Longrightarrow> \<exists>c. find P xs = Some c \<and> c \<in> set xs \<and> P c"
  by (induction xs) auto

lemma find_no_chat: "\<forall>c \<in> set xs. \<not> P c \<Longrightarrow> find P xs = None"
  by (induction xs) auto

text \<open>
  Claim C1. With a history list in the shared cache, the hook returns the visibility
  recorded for the chat of that id (the first such entry, the one \<open>find\<close> returns),
  whatever the local fallback is; with a history list that has no chat of that id it
  returns \<open>private\<close>, whatever the local fallback is; only with no history list
  at all does it return the local fallback, which is \<open>initialVisibilityType\<close> until
  the local key is written.
\<close>

theorem visibilityType_resolution:
  "((\<exists>chat \<in> set (h_chats h). h_id chat = chatId) \<longrightarrow>
      (\<exists>chat. find (\<lambda>c. h_id c = chatId) (h_chats h) = Some chat
         \<and> chat \<in> set (h_chats h) \<and> h_id chat = chatId
         \<and> (\<forall>localVis. visibilityType (Some h) chatId localVis = h_visibility chat)))
   \<and> ((\<forall>chat \<in> set (h_chats h). h_id chat \<noteq> chatId) \<longrightarrow>
      (\<forall>localVis. visibilityType (Some h) chatId localVis = Private))
   \<and> visibilityType None chatId (localVisibility cached initialVisibilityType)
        = localVisibility cached initialVisibilityType
   \<and> localVisibility None initialVisibilityType = initialVisibilityType
   \<and> localVisibility (Some v) initialVisibilityType = v"
proof (intro conjI impI)
  assume "\<exists>chat \<in> set (h_chats h). h_id chat = chatId"
  then obtain chat where "find (\<lambda>c. h_id c = chatId) (h_chats h) = Some chat"
    and "chat \<in> set (h_chats h)" and "h_id chat = chatId"
    using find_first_chat [of "h_chats h" "\<lambda>c. h_id c = chatId"] by blast
  then show "\<exists>chat. find (\<lambda>c. h_id c = chatId) (h_chats h) = Some chat
         \<and> chat \<in> set (h_chats h) \<and> h_id chat = chatId
         \<and> (\<forall>localVis. visibilityType (Some h) chatId localVis = h_visibility chat)"
    by (simp add: visibilityType_def)
next
  assume "\<forall>chat \<in> set (h_chats h). h_id chat \<noteq> chatId"
  then have "find (\<lambda>c. h_id c = chatId) (h_chats h) = None"
    using find_no_chat [of "h_chats h" "\<lambda>c. h_id c = chatId"] by simp
  then show "\<forall>localVis. visibilityType (Some h) chatId localVis = Private"
    by (simp add: visibilityType_def)
qed (simp_all add: visibilityType_def localVisibility_def)

theorem visibilityType_resolution_witness:
  "visibilityType
     (Some \<lparr>h_chats = [\<lparr>h_id = ''c1'', h_visibility = Public, h_workspaceId = None\<rparr>]\<rparr>)
     ''c1'' (localVisibility (Some Private) Public) = Public
   \<and> visibilityType
     (Some \<lparr>h_chats = [\<lparr>h_id = ''c2'', h_visibility = Public, h_workspaceId = None\<rparr>]\<rparr>)
     ''c1'' (localVisibility (Some Public) Public) = Private
   \<and> visibilityType None ''c1'' (localVisibility None Public) = Public"
  using visibilityType_resolution
    [of "\<lparr>h_chats = [\<lparr>h_id = ''c1'', h_visibility = Public, h_workspaceId = None\<rparr>]\<rparr>"
        "''c1''" None Public Public]
    visibilityType_resolution
    [of "\<lparr>h_chats = [\<lparr>h_id = ''c2'', h_visibility = Public, h_workspaceId = None\<rparr>]\<rparr>"
        "''c1''" None Public Public]
  by (simp add: localVisibility_def)

section \<open>Writing the visibility\<close>




section \<open>The fetch client\<close>

lemma fetchDocuments_no_selection:
  "\<not> truthy selected \<Longrightarrow>
     fetchDocuments net selected page limit
       = ([ConsoleWarn ''[MemoryGraphDialog] No chat selected; skipping fetch.''],
          Inr (emptyResult limit))"
  by (cases selected) (simp_all add: fetchDocuments_def truthy_def)

lemma fetchDocuments_selected:
  "chatId \<noteq> [] \<Longrightarrow>
     fetchDocuments net (Some chatId) page limit =
       (case net (requestBody page limit chatId) of
          FetchRejected \<Rightarrow>
            ([PostDocuments (requestBody page limit chatId),
              ConsoleError ''[MemoryGraphDialog] Error fetching documents:''],
             Inr (emptyResult limit))
        | NotOk status text \<Rightarrow>
            ([PostDocuments (requestBody page limit chatId),
              ConsoleError ''[MemoryGraphDialog] Failed to fetch documents:''],
             Inr (emptyResult limit))
        | JsonRejected \<Rightarrow>
            ([PostDocuments (requestBody page limit chatId),
              ConsoleError ''[MemoryGraphDialog] Error fetching documents:''],
             Inr (emptyResult limit))
        | OkJson data \<Rightarrow> ([PostDocuments (requestBody page limit chatId)], Inr data))"
  by (simp add: fetchDocuments_def fetchDocuments_try_def Let_def split: response.splits)

lemma fetchDocuments_returns:
  "\<exists>calls data. fetchDocuments net selected page limit = (calls, Inr data)"
proof (cases "truthy selected")
  case False
  then show ?thesis by (simp add: fetchDocuments_no_selection)
next
  case True
  then obtain chatId where "selected = Some chatId" "chatId \<noteq> []"
    by (cases selected) (auto simp: truthy_def)
  then show ?thesis
    by (cases "net (requestBody page limit chatId)") (simp_all add: fetchDocuments_selected)
qed

lemma fetchDocuments_requests:
  "requests (fst (fetchDocuments net selected page limit)) =
     (case selected of None \<Rightarrow> []
      | Some chatId \<Rightarrow> if chatId = [] then [] else [requestBody page limit chatId])"
proof (cases selected)
  case None
  then show ?thesis by (simp add: fetchDocuments_def)
next
  case (Some chatId)
  show ?thesis
  proof (cases "chatId = []")
    case True
    with Some show ?thesis by (simp add: fetchDocuments_def)
  next
    case False
    with Some show ?thesis
      by (cases "net (requestBody page limit chatId)") (simp_all add: fetchDocuments_selected)
  qed
qed

text \<open>
  Claim C5. With no chat selected (\<open>selectedChatId\<close> falsy) \<open>fetchDocuments\<close>
  returns at once the empty document list with the descriptor
  \<open>{currentPage: 1, totalPages: 0, totalItems: 0, limit}\<close> and makes no network
  request; when \<open>fetch\<close> or \<open>response.json()\<close> rejects, or the response is not
  \<open>ok\<close>, it logs an error and returns the same object; and for every behaviour of
  the network it returns a value, never an exception.
\<close>

theorem fetchDocuments_total:
  "(\<not> truthy selected \<longrightarrow>
      fetchDocuments (net :: doc_request \<Rightarrow> 'd response) selected page limit
        = ([ConsoleWarn ''[MemoryGraphDialog] No chat selected; skipping fetch.''],
           Inr (emptyResult limit))
      \<and> requests (fst (fetchDocuments net selected page limit)) = [])
   \<and> (\<forall>chatId. selected = Some chatId \<and> chatId \<noteq> []
         \<and> (net (requestBody page limit chatId) = FetchRejected
            \<or> net (requestBody page limit chatId) = JsonRejected) \<longrightarrow>
      fetchDocuments net selected page limit
        = ([PostDocuments (requestBody page limit chatId),
            ConsoleError ''[MemoryGraphDialog] Error fetching documents:''],
           Inr (emptyResult limit)))
   \<and> (\<forall>chatId status text. selected = Some chatId \<and> chatId \<noteq> []
         \<and> net (requestBody page limit chatId) = NotOk status text \<longrightarrow>
      fetchDocuments net selected page limit
        = ([PostDocuments (requestBody page limit chatId),
            ConsoleError ''[MemoryGraphDialog] Failed to fetch documents:''],
           Inr (emptyResult limit)))
   \<and> (\<exists>calls data. fetchDocuments net selected page limit = (calls, Inr data))
   \<and> (emptyResult limit :: 'd body)
        = JObj (Some [])
            (Some \<lparr>p_currentPage = 1, p_totalPages = 0, p_totalItems = 0, p_limit = limit\<rparr>)"
proof (intro conjI allI impI)
  show "\<exists>calls data. fetchDocuments net selected page limit = (calls, Inr data)"
    by (rule fetchDocuments_returns)
qed (auto simp: fetchDocuments_no_selection fetchDocuments_selected emptyResult_def)

theorem fetchDocuments_total_witness:
  "fetchDocuments (\<lambda>r. (FetchRejected :: nat response)) None 3 100
     = ([ConsoleWarn ''[MemoryGraphDialog] No chat selected; skipping fetch.''],
        Inr (JObj (Some [])
          (Some \<lparr>p_currentPage = 1, p_totalPages = 0, p_totalItems = 0, p_limit = 100\<rparr>)))
   \<and> fetchDocuments (\<lambda>r. (FetchRejected :: nat response)) (Some ''c1'') 3 100
     = ([PostDocuments (requestBody 3 100 ''c1''),
         ConsoleError ''[MemoryGraphDialog] Error fetching documents:''],
        Inr (JObj (Some [])
          (Some \<lparr>p_currentPage = 1, p_totalPages = 0, p_totalItems = 0, p_limit = 100\<rparr>)))
   \<and> fetchDocuments (\<lambda>r. (NotOk 500 None :: nat response)) (Some ''c1'') 3 100
     = ([PostDocuments (requestBody 3 100 ''c1''),
         ConsoleError ''[MemoryGraphDialog] Failed to fetch documents:''],
        Inr (JObj (Some [])
          (Some \<lparr>p_currentPage = 1, p_totalPages = 0, p_totalItems = 0, p_limit = 100\<rparr>)))"
  using fetchDocuments_total [of None "\<lambda>r. (FetchRejected :: nat response)" 3 100]
    fetchDocuments_total [of "Some ''c1''" "\<lambda>r. (FetchRejected :: nat response)" 3 100]
    fetchDocuments_total [of "Some ''c1''" "\<lambda>r. (NotOk 500 None :: nat response)" 3 100]
  by (simp add: truthy_def)

section \<open>The incremental loader\<close>

lemma requests_append: "requests (xs @ ys) = requests xs @ requests ys"
  by (induction xs rule: requests.induct) simp_all

lemma loadInitialDocuments_on:
  assumes "fetchDocuments net (selectedChatId s) 1 500 = (calls, Inr data)"
  shows "loadInitialDocuments net s =
     (calls,
      (case loadInitial_apply data (loadInitial_begin s) of
         (None, s1) \<Rightarrow> s1
       | (Some err, s1) \<Rightarrow> s1\<lparr>error := Some err\<rparr>)\<lparr>isLoading := False\<rparr>)"
  using assms by (simp add: loadInitialDocuments_def Let_def split: prod.splits option.splits)

lemma loadInitialDocuments_calls:
  "fst (loadInitialDocuments net s) = fst (fetchDocuments net (selectedChatId s) 1 500)"
  by (simp add: loadInitialDocuments_def Let_def split: prod.splits)

lemma loadInitialDocuments_ok:
  assumes "fetchDocuments net (selectedChatId s) 1 500 = (calls, Inr (JObj docs (Some p)))"
  shows "loadInitialDocuments net s =
     (calls,
      s\<lparr>documents := (case docs of None \<Rightarrow> [] | Some xs \<Rightarrow> xs),
        totalLoaded := length (case docs of None \<Rightarrow> [] | Some xs \<Rightarrow> xs),
        currentPage := 1,
        hasMore := (p_currentPage p < p_totalPages p),
        error := None, isLoading := False\<rparr>)"
  by (simp add: loadInitialDocuments_on [OF assms] loadInitial_begin_def Let_def)

lemma loadMoreDocuments_blocked:
  "isLoadingMore s \<or> \<not> hasMore s \<Longrightarrow> loadMoreDocuments net s = ([], s)"
  by (simp add: loadMoreDocuments_def)

lemma loadMoreDocuments_on:
  assumes "\<not> isLoadingMore s" and "hasMore s"
    and "fetchDocuments net (selectedChatId s) (currentPage s + 1) 100 = (calls, Inr data)"
  shows "loadMoreDocuments net s =
     (case loadMore_apply (currentPage s + 1) data (s\<lparr>isLoadingMore := True\<rparr>) of
        (None, s1) \<Rightarrow> (calls, s1\<lparr>isLoadingMore := False\<rparr>)
      | (Some err, s1) \<Rightarrow>
          (calls @ [ConsoleError ''Error loading more documents:''],
           s1\<lparr>isLoadingMore := False\<rparr>))"
  using assms by (simp add: loadMoreDocuments_def Let_def split: prod.splits option.splits)

lemma loadMoreDocuments_requests:
  "requests (fst (loadMoreDocuments net s)) =
     (if isLoadingMore s \<or> \<not> hasMore s then []
      else requests (fst (fetchDocuments net (selectedChatId s) (currentPage s + 1) 100)))"
  by (simp add: loadMoreDocuments_def Let_def requests_append split: prod.splits option.splits)



lemma loadMoreDocuments_nonempty:
  assumes "\<not> isLoadingMore s" and "hasMore s"
    and "fetchDocuments net (selectedChatId s) (currentPage s + 1) 100
           = (calls, Inr (JObj (Some docs) (Some p)))"
    and "docs \<noteq> []"
  shows "loadMoreDocuments net s =
     (calls,
      s\<lparr>documents := documents s @ docs,
        totalLoaded := totalLoaded s + length docs,
        currentPage := currentPage s + 1,
        hasMore := (p_currentPage p < p_totalPages p),
        isLoadingMore := False\<rparr>)"
  using assms(4) by (simp add: loadMoreDocuments_on [OF assms(1-3)] Let_def)

lemma loadMoreDocuments_empty:
  assumes "\<not> isLoadingMore s" and "hasMore s"
    and "fetchDocuments net (selectedChatId s) (currentPage s + 1) 100
           = (calls, Inr (JObj docs pag))"
    and "docs = None \<or> docs = Some []"
  shows "loadMoreDocuments net s = (calls, s\<lparr>hasMore := False, isLoadingMore := False\<rparr>)"
  using assms(4) by (auto simp: loadMoreDocuments_on [OF assms(1-3)])

text \<open>
  Claim C2, as the code has it. \<open>loadMoreDocuments\<close> does nothing (no call, the
  state as it was) when \<open>isLoadingMore\<close> is set or \<open>hasMore\<close> is not.
  Otherwise, with a chat selected, it sends exactly one request, for page
  \<open>currentPage + 1\<close> of that chat with limit 100, below the limit 500 of the
  request of the initial load. On a response with a non-empty document list \<open>docs\<close>
  and pagination \<open>p\<close> it appends \<open>docs\<close> to the documents, moves to the next
  page and sets \<open>hasMore\<close> to \<open>p.currentPage < p.totalPages\<close>. On a response
  with no or an empty document list it sets \<open>hasMore\<close> to false and leaves
  documents and page alone, whatever the pagination of that response says. With no chat
  selected it sends no request: \<open>fetchDocuments\<close> logs a warning and returns the
  empty result, and \<open>hasMore\<close> becomes false.
\<close>

theorem loadMoreDocuments_contract:
  "(isLoadingMore s \<or> \<not> hasMore s \<longrightarrow> loadMoreDocuments net s = ([], s))
   \<and> (\<forall>chatId. \<not> isLoadingMore s \<and> hasMore s
         \<and> selectedChatId s = Some chatId \<and> chatId \<noteq> [] \<longrightarrow>
        requests (fst (loadMoreDocuments net s))
          = [\<lparr>r_page = currentPage s + 1, r_limit = 100, r_sort = ''createdAt'',
              r_order = ''desc'', r_chatId = chatId\<rparr>]
        \<and> requests (fst (loadInitialDocuments net' s))
          = [\<lparr>r_page = 1, r_limit = 500, r_sort = ''createdAt'',
              r_order = ''desc'', r_chatId = chatId\<rparr>])
   \<and> (\<forall>chatId docs p. \<not> isLoadingMore s \<and> hasMore s
         \<and> selectedChatId s = Some chatId \<and> chatId \<noteq> []
         \<and> net \<lparr>r_page = currentPage s + 1, r_limit = 100, r_sort = ''createdAt'',
                 r_order = ''desc'', r_chatId = chatId\<rparr>
             = OkJson (JObj (Some docs) (Some p))
         \<and> docs \<noteq> [] \<longrightarrow>
        loadMoreDocuments net s =
          ([PostDocuments \<lparr>r_page = currentPage s + 1, r_limit = 100, r_sort = ''createdAt'',
                            r_order = ''desc'', r_chatId = chatId\<rparr>],
           s\<lparr>documents := documents s @ docs,
             totalLoaded := totalLoaded s + length docs,
             currentPage := currentPage s + 1,
             hasMore := (p_currentPage p < p_totalPages p),
             isLoadingMore := False\<rparr>))
   \<and> (\<forall>chatId docs pag. \<not> isLoadingMore s \<and> hasMore s
         \<and> selectedChatId s = Some chatId \<and> chatId \<noteq> []
         \<and> net \<lparr>r_page = currentPage s + 1, r_limit = 100, r_sort = ''createdAt'',
                 r_order = ''desc'', r_chatId = chatId\<rparr>
             = OkJson (JObj docs pag)
         \<and> (docs = None \<or> docs = Some []) \<longrightarrow>
        loadMoreDocuments net s =
          ([PostDocuments \<lparr>r_page = currentPage s + 1, r_limit = 100, r_sort = ''createdAt'',
                            r_order = ''desc'', r_chatId = chatId\<rparr>],
           s\<lparr>hasMore := False, isLoadingMore := False\<rparr>))
   \<and> (\<forall>calls docs p. \<not> isLoadingMore s \<and> hasMore s
         \<and> fetchDocuments net (selectedChatId s) (currentPage s + 1) 100
             = (calls, Inr (JObj (Some docs) (Some p)))
         \<and> docs \<noteq> [] \<longrightarrow>
        loadMoreDocuments net s =
          (calls,
           s\<lparr>documents := documents s @ docs,
             totalLoaded := totalLoaded s + length docs,
             currentPage := currentPage s + 1,
             hasMore := (p_currentPage p < p_totalPages p),
             isLoadingMore := False\<rparr>))
   \<and> (\<forall>calls docs pag. \<not> isLoadingMore s \<and> hasMore s
         \<and> fetchDocuments net (selectedChatId s) (currentPage s + 1) 100
             = (calls, Inr (JObj docs pag))
         \<and> (docs = None \<or> docs = Some []) \<longrightarrow>
        loadMoreDocuments net s = (calls, s\<lparr>hasMore := False, isLoadingMore := False\<rparr>))
   \<and> (\<not> isLoadingMore s \<and> hasMore s \<and> \<not> truthy (selectedChatId s) \<longrightarrow>
        loadMoreDocuments net s =
          ([ConsoleWarn ''[MemoryGraphDialog] No chat selected; skipping fetch.''],
           s\<lparr>hasMore := False, isLoadingMore := False\<rparr>)
        \<and> requests (fst (loadMoreDocuments net s)) = [])"
proof (intro conjI allI impI)
  assume "isLoadingMore s \<or> \<not> hasMore s"
  then show "loadMoreDocuments net s = ([], s)"
    by (rule loadMoreDocuments_blocked)
next
  fix chatId
  assume a: "\<not> isLoadingMore s \<and> hasMore s \<and> selectedChatId s = Some chatId \<and> chatId \<noteq> []"
  then show "requests (fst (loadMoreDocuments net s))
      = [\<lparr>r_page = currentPage s + 1, r_limit = 100, r_sort = ''createdAt'',
          r_order = ''desc'', r_chatId = chatId\<rparr>]"
    by (simp add: loadMoreDocuments_requests fetchDocuments_requests requestBody_def)
  from a show "requests (fst (loadInitialDocuments net' s))
      = [\<lparr>r_page = 1, r_limit = 500, r_sort = ''createdAt'',
          r_order = ''desc'', r_chatId = chatId\<rparr>]"
    by (simp add: loadInitialDocuments_calls fetchDocuments_requests requestBody_def)
next
  fix chatId docs p
  assume a: "\<not> isLoadingMore s \<and> hasMore s
         \<and> selectedChatId s = Some chatId \<and> chatId \<noteq> []
         \<and> net \<lparr>r_page = currentPage s + 1, r_limit = 100, r_sort = ''createdAt'',
                 r_order = ''desc'', r_chatId = chatId\<rparr>
             = OkJson (JObj (Some docs) (Some p))
         \<and> docs \<noteq> []"
  then have "fetchDocuments net (selectedChatId s) (currentPage s + 1) 100
      = ([PostDocuments \<lparr>r_page = currentPage s + 1, r_limit = 100, r_sort = ''createdAt'',
                          r_order = ''desc'', r_chatId = chatId\<rparr>],
         Inr (JObj (Some docs) (Some p)))"
    by (simp add: fetchDocuments_selected requestBody_def)
  with a show "loadMoreDocuments net s =
          ([PostDocuments \<lparr>r_page = currentPage s + 1, r_limit = 100, r_sort = ''createdAt'',
                            r_order = ''desc'', r_chatId = chatId\<rparr>],
           s\<lparr>documents := documents s @ docs,
             totalLoaded := totalLoaded s + length docs,
             currentPage := currentPage s + 1,
             hasMore := (p_currentPage p < p_totalPages p),
             isLoadingMore := False\<rparr>)"
    using loadMoreDocuments_nonempty
      [of s net "[PostDocuments \<lparr>r_page = currentPage s + 1, r_limit = 100,
                   r_sort = ''createdAt'', r_order = ''desc'', r_chatId = chatId\<rparr>]" docs p]
    by simp
next
  fix chatId docs pag
  assume a: "\<not> isLoadingMore s \<and> hasMore s
         \<and> selectedChatId s = Some chatId \<and> chatId \<noteq> []
         \<and> net \<lparr>r_page = currentPage s + 1, r_limit = 100, r_sort = ''createdAt'',
                 r_order = ''desc'', r_chatId = chatId\<rparr>
             = OkJson (JObj docs pag)
         \<and> (docs = None \<or> docs = Some [])"
  then have "fetchDocuments net (selectedChatId s) (currentPage s + 1) 100
      = ([PostDocuments \<lparr>r_page = currentPage s + 1, r_limit = 100, r_sort = ''createdAt'',
                          r_order = ''desc'', r_chatId = chatId\<rparr>],
         Inr (JObj docs pag))"
    by (simp add: fetchDocuments_selected requestBody_def)
  with a show "loadMoreDocuments net s =
          ([PostDocuments \<lparr>r_page = currentPage s + 1, r_limit = 100, r_sort = ''createdAt'',
                            r_order = ''desc'', r_chatId = chatId\<rparr>],
           s\<lparr>hasMore := False, isLoadingMore := False\<rparr>)"
    using loadMoreDocuments_empty
      [of s net "[PostDocuments \<lparr>r_page = currentPage s + 1, r_limit = 100,
                   r_sort = ''createdAt'', r_order = ''desc'', r_chatId = chatId\<rparr>]" docs pag]
    by simp
next
  fix calls docs p
  assume "\<not> isLoadingMore s \<and> hasMore s
         \<and> fetchDocuments net (selectedChatId s) (currentPage s + 1) 100
             = (calls, Inr (JObj (Some docs) (Some p)))
         \<and> docs \<noteq> []"
  then show "loadMoreDocuments net s =
          (calls,
           s\<lparr>documents := documents s @ docs,
             totalLoaded := totalLoaded s + length docs,
             currentPage := currentPage s + 1,
             hasMore := (p_currentPage p < p_totalPages p),
             isLoadingMore := False\<rparr>)"
    using loadMoreDocuments_nonempty [of s net calls docs p] by simp
next
  fix calls docs pag
  assume "\<not> isLoadingMore s \<and> hasMore s
         \<and> fetchDocuments net (selectedChatId s) (currentPage s + 1) 100
             = (calls, Inr (JObj docs pag))
         \<and> (docs = None \<or> docs = Some [])"
  then show "loadMoreDocuments net s = (calls, s\<lparr>hasMore := False, isLoadingMore := False\<rparr>)"
    using loadMoreDocuments_empty [of s net calls docs pag] by simp
next
  assume a: "\<not> isLoadingMore s \<and> hasMore s \<and> \<not> truthy (selectedChatId s)"
  then have f: "fetchDocuments net (selectedChatId s) (currentPage s + 1) 100
      = ([ConsoleWarn ''[MemoryGraphDialog] No chat selected; skipping fetch.''],
         Inr (JObj (Some [])
           (Some \<lparr>p_currentPage = 1, p_totalPages = 0, p_totalItems = 0, p_limit = 100\<rparr>)))"
    by (simp add: fetchDocuments_no_selection emptyResult_def)
  with a show r: "loadMoreDocuments net s =
          ([ConsoleWarn ''[MemoryGraphDialog] No chat selected; skipping fetch.''],
           s\<lparr>hasMore := False, isLoadingMore := False\<rparr>)"
    using loadMoreDocuments_empty
      [of s net "[ConsoleWarn ''[MemoryGraphDialog] No chat selected; skipping fetch.'']"
          "Some []"
          "Some \<lparr>p_currentPage = 1, p_totalPages = 0, p_totalItems = 0, p_limit = 100\<rparr>"]
    by simp
  show "requests (fst (loadMoreDocuments net s)) = []"
    by (simp add: r)
qed

theorem loadMoreDocuments_contract_witness:
  "loadMoreDocuments
     (\<lambda>r. OkJson (JObj (Some [501, 502 :: nat])
        (Some \<lparr>p_currentPage = 2, p_totalPages = 2, p_totalItems = 502, p_limit = 100\<rparr>)))
     (initial_dialog\<lparr>selectedChatId := Some ''c1'', isLoadingMore := True\<rparr>)
    = ([], initial_dialog\<lparr>selectedChatId := Some ''c1'', isLoadingMore := True\<rparr>)
   \<and> loadMoreDocuments
     (\<lambda>r. OkJson (JObj (Some [501, 502 :: nat])
        (Some \<lparr>p_currentPage = 2, p_totalPages = 2, p_totalItems = 502, p_limit = 100\<rparr>)))
     (initial_dialog\<lparr>selectedChatId := Some ''c1'', documents := [1, 2], totalLoaded := 2\<rparr>)
    = ([PostDocuments \<lparr>r_page = 2, r_limit = 100, r_sort = ''createdAt'',
                        r_order = ''desc'', r_chatId = ''c1''\<rparr>],
       initial_dialog\<lparr>selectedChatId := Some ''c1'', documents := [1, 2, 501, 502],
         totalLoaded := 4, currentPage := 2, hasMore := False\<rparr>)
   \<and> loadMoreDocuments
     (\<lambda>r. OkJson (JObj (Some ([] :: nat list))
        (Some \<lparr>p_currentPage = 2, p_totalPages = 5, p_totalItems = 450, p_limit = 100\<rparr>)))
     (initial_dialog\<lparr>selectedChatId := Some ''c1'', documents := [1, 2], totalLoaded := 2\<rparr>)
    = ([PostDocuments \<lparr>r_page = 2, r_limit = 100, r_sort = ''createdAt'',
                        r_order = ''desc'', r_chatId = ''c1''\<rparr>],
       initial_dialog\<lparr>selectedChatId := Some ''c1'', documents := [1, 2],
         totalLoaded := 2, hasMore := False\<rparr>)
   \<and> requests (fst (loadInitialDocuments (\<lambda>r. (FetchRejected :: nat response))
     (initial_dialog\<lparr>selectedChatId := Some ''c1'', documents := [1, 2], totalLoaded := 2\<rparr>)))
    = [\<lparr>r_page = 1, r_limit = 500, r_sort = ''createdAt'', r_order = ''desc'',
        r_chatId = ''c1''\<rparr>]
   \<and> loadMoreDocuments
     (\<lambda>r. OkJson (JObj (Some [501, 502 :: nat])
        (Some \<lparr>p_currentPage = 2, p_totalPages = 2, p_totalItems = 502, p_limit = 100\<rparr>)))
     (initial_dialog\<lparr>documents := [1, 2], totalLoaded := 2\<rparr>)
    = ([ConsoleWarn ''[MemoryGraphDialog] No chat selected; skipping fetch.''],
       initial_dialog\<lparr>documents := [1, 2], totalLoaded := 2, hasMore := False\<rparr>)"
  using loadMoreDocuments_contract
    [of "initial_dialog\<lparr>selectedChatId := Some ''c1'', isLoadingMore := True\<rparr>"
        "\<lambda>r. OkJson (JObj (Some [501, 502 :: nat])
          (Some \<lparr>p_currentPage = 2, p_totalPages = 2, p_totalItems = 502, p_limit = 100\<rparr>))"]
    loadMoreDocuments_contract
    [of "initial_dialog\<lparr>selectedChatId := Some ''c1'', documents := [1, 2], totalLoaded := 2\<rparr>"
        "\<lambda>r. OkJson (JObj (Some [501, 502 :: nat])
          (Some \<lparr>p_currentPage = 2, p_totalPages = 2, p_totalItems = 502, p_limit = 100\<rparr>))"
        "\<lambda>r. (FetchRejected :: nat response)"]
    loadMoreDocuments_contract
    [of "initial_dialog\<lparr>selectedChatId := Some ''c1'', documents := [1, 2], totalLoaded := 2\<rparr>"
        "\<lambda>r. OkJson (JObj (Some ([] :: nat list))
          (Some \<lparr>p_currentPage = 2, p_totalPages = 5, p_totalItems = 450, p_limit = 100\<rparr>))"]
    loadMoreDocuments_contract
    [of "initial_dialog\<lparr>documents := [1, 2], totalLoaded := 2\<rparr>"
        "\<lambda>r. OkJson (JObj (Some [501, 502 :: nat])
          (Some \<lparr>p_currentPage = 2, p_totalPages = 2, p_totalItems = 502, p_limit = 100\<rparr>))"]
  by (simp add: initial_dialog_def truthy_def)

theorem loadMoreDocuments_contract_counterexample:
  "hasMore (initial_dialog :: nat dialog)
   \<and> isLoadingMore (initial_dialog :: nat dialog) = False
   \<and> requests (fst (loadMoreDocuments
      (\<lambda>r. OkJson (JObj (Some [501, 502 :: nat])
         (Some \<lparr>p_currentPage = 2, p_totalPages = 2, p_totalItems = 502, p_limit = 100\<rparr>)))
      initial_dialog))
    = []
   \<and> documents (snd (loadMoreDocuments
      (\<lambda>r. OkJson (JObj (Some [501, 502 :: nat])
         (Some \<lparr>p_currentPage = 2, p_totalPages = 2, p_totalItems = 502, p_limit = 100\<rparr>)))
      initial_dialog))
    = []
   \<and> currentPage (snd (loadMoreDocuments
      (\<lambda>r. OkJson (JObj (Some [501, 502 :: nat])
         (Some \<lparr>p_currentPage = 2, p_totalPages = 2, p_totalItems = 502, p_limit = 100\<rparr>)))
      initial_dialog))
    = 1
   \<and> hasMore (snd (loadMoreDocuments
      (\<lambda>r. OkJson (JObj (Some [501, 502 :: nat])
         (Some \<lparr>p_currentPage = 2, p_totalPages = 2, p_totalItems = 502, p_limit = 100\<rparr>)))
      initial_dialog))
    = False"
  by (simp add: loadMoreDocuments_def fetchDocuments_def emptyResult_def initial_dialog_def
      Let_def)

text \<open>
  Claim C10, as the code has it. The state the component starts in has
  \<open>hasMore\<close> true, \<open>isLoadingMore\<close> false, page 1 and no documents. In every
  state with these three values, so also before any initial load has finished, the guard
  of \<open>loadMoreDocuments\<close> lets the call through: it makes at least one call and
  asks \<open>fetchDocuments\<close> for page 2 with limit 100. When a chat is selected, exactly
  one request is sent, with page 2, limit 100 and the id of that chat, although no
  document is loaded. In the very first state no chat is selected:
  \<open>fetchDocuments\<close> logs a warning and skips the request, and the call only turns
  \<open>hasMore\<close> off.
\<close>

theorem loadMoreDocuments_before_initial_load:
  "hasMore (initial_dialog :: 'd dialog)
   \<and> \<not> isLoadingMore (initial_dialog :: 'd dialog)
   \<and> currentPage (initial_dialog :: 'd dialog) = 1
   \<and> documents (initial_dialog :: 'd dialog) = []
   \<and> selectedChatId (initial_dialog :: 'd dialog) = None
   \<and> (hasMore s \<and> \<not> isLoadingMore s \<and> currentPage s = 1 \<longrightarrow>
        loadMoreDocuments net s \<noteq> ([], s)
        \<and> fst (loadMoreDocuments net s) \<noteq> []
        \<and> prefix (fst (fetchDocuments net (selectedChatId s) 2 100))
             (fst (loadMoreDocuments net s)))
   \<and> (\<forall>chatId. hasMore s \<and> \<not> isLoadingMore s \<and> currentPage s = 1
         \<and> selectedChatId s = Some chatId \<and> chatId \<noteq> [] \<longrightarrow>
        requests (fst (loadMoreDocuments net s))
          = [\<lparr>r_page = 2, r_limit = 100, r_sort = ''createdAt'', r_order = ''desc'',
              r_chatId = chatId\<rparr>]
        \<and> (\<forall>req \<in> set (requests (fst (loadMoreDocuments net s))).
              r_page req = 2 \<and> r_limit req = 100 \<and> r_chatId req = chatId)
        \<and> hd (fst (loadMoreDocuments net s))
          = PostDocuments \<lparr>r_page = 2, r_limit = 100, r_sort = ''createdAt'',
                            r_order = ''desc'', r_chatId = chatId\<rparr>)
   \<and> (hasMore s \<and> \<not> isLoadingMore s \<and> currentPage s = 1
         \<and> \<not> truthy (selectedChatId s) \<longrightarrow>
        loadMoreDocuments net s
          = ([ConsoleWarn ''[MemoryGraphDialog] No chat selected; skipping fetch.''],
             s\<lparr>hasMore := False, isLoadingMore := False\<rparr>))
   \<and> loadMoreDocuments (net :: doc_request \<Rightarrow> 'd response) initial_dialog
        = ([ConsoleWarn ''[MemoryGraphDialog] No chat selected; skipping fetch.''],
           initial_dialog\<lparr>hasMore := False\<rparr>)"
proof (intro conjI allI impI)
  assume g: "hasMore s \<and> \<not> isLoadingMore s \<and> currentPage s = 1"
  obtain calls data
    where f: "fetchDocuments net (selectedChatId s) (currentPage s + 1) 100 = (calls, Inr data)"
    using fetchDocuments_returns by blast
  have "requests calls \<noteq> [] \<or> calls \<noteq> []"
    using f fetchDocuments_requests [of net "selectedChatId s" "currentPage s + 1" 100]
    by (cases "selectedChatId s") (auto simp: fetchDocuments_def)
  then have ne: "calls \<noteq> []" by auto
  from g f have alt: "fst (loadMoreDocuments net s) = calls
      \<or> fst (loadMoreDocuments net s) = calls @ [ConsoleError ''Error loading more documents:'']"
    using loadMoreDocuments_on [of s net calls data]
    by (auto split: prod.splits option.splits)
  with ne show "fst (loadMoreDocuments net s) \<noteq> []" by auto
  then show "loadMoreDocuments net s \<noteq> ([], s)" by auto
  from alt f g show "prefix (fst (fetchDocuments net (selectedChatId s) 2 100))
             (fst (loadMoreDocuments net s))"
    by auto
next
  fix chatId
  assume a: "hasMore s \<and> \<not> isLoadingMore s \<and> currentPage s = 1
         \<and> selectedChatId s = Some chatId \<and> chatId \<noteq> []"
  then show r: "requests (fst (loadMoreDocuments net s))
      = [\<lparr>r_page = 2, r_limit = 100, r_sort = ''createdAt'', r_order = ''desc'',
          r_chatId = chatId\<rparr>]"
    by (simp add: loadMoreDocuments_requests fetchDocuments_requests requestBody_def)
  show "\<forall>req \<in> set (requests (fst (loadMoreDocuments net s))).
      r_page req = 2 \<and> r_limit req = 100 \<and> r_chatId req = chatId"
    by (simp add: r)
  obtain calls data
    where f: "fetchDocuments net (selectedChatId s) (currentPage s + 1) 100 = (calls, Inr data)"
    using fetchDocuments_returns by blast
  with a have h: "calls \<noteq> [] \<and> hd calls = PostDocuments \<lparr>r_page = 2, r_limit = 100,
      r_sort = ''createdAt'', r_order = ''desc'', r_chatId = chatId\<rparr>"
    by (cases "net (requestBody 2 100 chatId)")
      (auto simp: fetchDocuments_selected requestBody_def)
  from a f have "fst (loadMoreDocuments net s) = calls
      \<or> fst (loadMoreDocuments net s) = calls @ [ConsoleError ''Error loading more documents:'']"
    using loadMoreDocuments_on [of s net calls data]
    by (auto split: prod.splits option.splits)
  with h show "hd (fst (loadMoreDocuments net s))
      = PostDocuments \<lparr>r_page = 2, r_limit = 100, r_sort = ''createdAt'',
                        r_order = ''desc'', r_chatId = chatId\<rparr>"
    by auto
next
  assume a: "hasMore s \<and> \<not> isLoadingMore s \<and> currentPage s = 1
         \<and> \<not> truthy (selectedChatId s)"
  then have "fetchDocuments net (selectedChatId s) (currentPage s + 1) 100
      = ([ConsoleWarn ''[MemoryGraphDialog] No chat selected; skipping fetch.''],
         Inr (JObj (Some [])
           (Some \<lparr>p_currentPage = 1, p_totalPages = 0, p_totalItems = 0, p_limit = 100\<rparr>)))"
    by (simp add: fetchDocuments_no_selection emptyResult_def)
  with a show "loadMoreDocuments net s
      = ([ConsoleWarn ''[MemoryGraphDialog] No chat selected; skipping fetch.''],
         s\<lparr>hasMore := False, isLoadingMore := False\<rparr>)"
    using loadMoreDocuments_empty
      [of s net "[ConsoleWarn ''[MemoryGraphDialog] No chat selected; skipping fetch.'']"
          "Some []"
          "Some \<lparr>p_currentPage = 1, p_totalPages = 0, p_totalItems = 0, p_limit = 100\<rparr>"]
    by simp
next
  have "fetchDocuments net (selectedChatId (initial_dialog :: 'd dialog))
          (currentPage (initial_dialog :: 'd dialog) + 1) 100
      = ([ConsoleWarn ''[MemoryGraphDialog] No chat selected; skipping fetch.''],
         Inr (JObj (Some []) (Some \<lparr>p_currentPage = 1, p_totalPages = 0, p_totalItems = 0,
                                     p_limit = 100\<rparr>)))"
    by (simp add: initial_dialog_def fetchDocuments_def emptyResult_def)
  from loadMoreDocuments_empty [OF _ _ this]
  show "loadMoreDocuments net (initial_dialog :: 'd dialog)
        = ([ConsoleWarn ''[MemoryGraphDialog] No chat selected; skipping fetch.''],
           initial_dialog\<lparr>hasMore := False\<rparr>)"
    by (simp add: initial_dialog_def)
qed (simp_all add: initial_dialog_def)

theorem loadMoreDocuments_before_initial_load_witness:
  "requests (fst (loadMoreDocuments (\<lambda>r. (FetchRejected :: nat response))
       (initial_dialog\<lparr>selectedChatId := Some ''c1'', isLoading := True\<rparr>)))
     = [\<lparr>r_page = 2, r_limit = 100, r_sort = ''createdAt'', r_order = ''desc'',
         r_chatId = ''c1''\<rparr>]
   \<and> hd (fst (loadMoreDocuments (\<lambda>r. (FetchRejected :: nat response))
       (initial_dialog\<lparr>selectedChatId := Some ''c1'', isLoading := True\<rparr>)))
     = PostDocuments \<lparr>r_page = 2, r_limit = 100, r_sort = ''createdAt'', r_order = ''desc'',
         r_chatId = ''c1''\<rparr>
   \<and> documents (initial_dialog\<lparr>selectedChatId := Some ''c1'', isLoading := True\<rparr>
        :: nat dialog) = []
   \<and> loadMoreDocuments (\<lambda>r. (FetchRejected :: nat response)) initial_dialog
     = ([ConsoleWarn ''[MemoryGraphDialog] No chat selected; skipping fetch.''],
        initial_dialog\<lparr>hasMore := False\<rparr>)"
  using loadMoreDocuments_before_initial_load
    [of "initial_dialog\<lparr>selectedChatId := Some ''c1'', isLoading := True\<rparr>"
        "\<lambda>r. (FetchRejected :: nat response)"]
  by (simp add: initial_dialog_def)

theorem loadMoreDocuments_before_initial_load_counterexample:
  "requests (fst (loadMoreDocuments
      (\<lambda>r. OkJson (JObj (Some [1 :: nat])
         (Some \<lparr>p_currentPage = 2, p_totalPages = 5, p_totalItems = 401, p_limit = 100\<rparr>)))
      initial_dialog))
    = []
   \<and> loadMoreDocuments
      (\<lambda>r. OkJson (JObj (Some [1 :: nat])
         (Some \<lparr>p_currentPage = 2, p_totalPages = 5, p_totalItems = 401, p_limit = 100\<rparr>)))
      initial_dialog
    = ([ConsoleWarn ''[MemoryGraphDialog] No chat selected; skipping fetch.''],
       initial_dialog\<lparr>hasMore := False\<rparr>)"
  by (simp add: loadMoreDocuments_def fetchDocuments_def emptyResult_def initial_dialog_def
      Let_def)

lemma loadInitialDocuments_failed_fetch:
  assumes "selectedChatId s = Some chatId" and "chatId \<noteq> []"
    and "net (requestBody 1 500 chatId) = FetchRejected
         \<or> (\<exists>status text. net (requestBody 1 500 chatId) = NotOk status text)
         \<or> net (requestBody 1 500 chatId) = JsonRejected"
  shows "snd (loadInitialDocuments net s) =
     s\<lparr>documents := [], totalLoaded := 0, currentPage := 1, hasMore := False,
       error := None, isLoading := False\<rparr>"
proof -
  from assms obtain calls where
    "fetchDocuments net (selectedChatId s) 1 500
       = (calls, Inr (JObj (Some [])
           (Some \<lparr>p_currentPage = 1, p_totalPages = 0, p_totalItems = 0, p_limit = 500\<rparr>)))"
    by (auto simp: fetchDocuments_selected emptyResult_def)
  from loadInitialDocuments_ok [OF this] show ?thesis by simp
qed

lemma loadInitialDocuments_error:
  "error (snd (loadInitialDocuments net s)) =
     (case snd (fetchDocuments net (selectedChatId s) 1 500) of
        Inl err \<Rightarrow> Some err
      | Inr JNull \<Rightarrow> Some TypeError
      | Inr (JObj docs None) \<Rightarrow> Some TypeError
      | Inr (JObj docs (Some p)) \<Rightarrow> None)"
  by (simp add: loadInitialDocuments_def loadInitial_begin_def Let_def
      split: prod.splits sum.splits body.splits option.splits)

text \<open>
  Claim C3, as the code has it. A failing fetch never reaches the \<open>catch\<close> of
  \<open>loadInitialDocuments\<close>: \<open>fetchDocuments\<close> turns it into the empty result. So
  when \<open>fetch\<close> rejects, the response is not \<open>ok\<close> or its body does not parse,
  \<open>loadInitialDocuments\<close> ends with no error recorded, the documents replaced by
  the empty list, page 1, \<open>hasMore\<close> false and \<open>isLoading\<close> false. An error is
  recorded (a \<open>TypeError\<close>) exactly when a chat is selected and the response
  parses to \<open>null\<close> or to a value without \<open>pagination\<close>; for \<open>null\<close> the
  documents stay as they were.
\<close>

theorem loadInitialDocuments_fetch_failure:
  "(\<forall>chatId. selectedChatId s = Some chatId \<and> chatId \<noteq> []
        \<and> (net (requestBody 1 500 chatId) = FetchRejected
            \<or> (\<exists>status text. net (requestBody 1 500 chatId) = NotOk status text)
            \<or> net (requestBody 1 500 chatId) = JsonRejected) \<longrightarrow>
      snd (loadInitialDocuments net s) =
        s\<lparr>documents := [], totalLoaded := 0, currentPage := 1, hasMore := False,
          error := None, isLoading := False\<rparr>)
   \<and> (error (snd (loadInitialDocuments net s)) \<noteq> None \<longleftrightarrow>
        (\<exists>chatId. selectedChatId s = Some chatId \<and> chatId \<noteq> []
           \<and> (net (requestBody 1 500 chatId) = OkJson JNull
              \<or> (\<exists>docs. net (requestBody 1 500 chatId) = OkJson (JObj docs None)))))
   \<and> (error (snd (loadInitialDocuments net s)) = None
        \<or> error (snd (loadInitialDocuments net s)) = Some TypeError)
   \<and> (\<forall>chatId. selectedChatId s = Some chatId \<and> chatId \<noteq> []
        \<and> net (requestBody 1 500 chatId) = OkJson JNull \<longrightarrow>
      snd (loadInitialDocuments net s) = s\<lparr>error := Some TypeError, isLoading := False\<rparr>)"
proof (intro conjI allI impI)
  fix chatId
  assume "selectedChatId s = Some chatId \<and> chatId \<noteq> []
        \<and> (net (requestBody 1 500 chatId) = FetchRejected
            \<or> (\<exists>status text. net (requestBody 1 500 chatId) = NotOk status text)
            \<or> net (requestBody 1 500 chatId) = JsonRejected)"
  then show "snd (loadInitialDocuments net s) =
        s\<lparr>documents := [], totalLoaded := 0, currentPage := 1, hasMore := False,
          error := None, isLoading := False\<rparr>"
    using loadInitialDocuments_failed_fetch [of s chatId net] by blast
next
  show "error (snd (loadInitialDocuments net s)) \<noteq> None \<longleftrightarrow>
        (\<exists>chatId. selectedChatId s = Some chatId \<and> chatId \<noteq> []
           \<and> (net (requestBody 1 500 chatId) = OkJson JNull
              \<or> (\<exists>docs. net (requestBody 1 500 chatId) = OkJson (JObj docs None))))"
  proof (cases "truthy (selectedChatId s)")
    case False
    then have "\<not> (\<exists>chatId. selectedChatId s = Some chatId \<and> chatId \<noteq> [])"
      by (auto simp: truthy_def)
    with False show ?thesis
      by (simp add: loadInitialDocuments_error fetchDocuments_no_selection emptyResult_def)
  next
    case True
    then obtain chatId where sel: "selectedChatId s = Some chatId" "chatId \<noteq> []"
      by (cases "selectedChatId s") (auto simp: truthy_def)
    show ?thesis
    proof (cases "net (requestBody 1 500 chatId)")
      case (OkJson data)
      with sel show ?thesis
        by (cases data)
          (auto simp: loadInitialDocuments_error fetchDocuments_selected split: option.splits)
    qed (use sel in \<open>simp_all add: loadInitialDocuments_error fetchDocuments_selected
          emptyResult_def\<close>)
  qed
next
  obtain calls data
    where f: "fetchDocuments net (selectedChatId s) 1 500 = (calls, Inr data)"
    using fetchDocuments_returns by blast
  then show "error (snd (loadInitialDocuments net s)) = None
        \<or> error (snd (loadInitialDocuments net s)) = Some TypeError"
    by (simp add: loadInitialDocuments_error split: body.splits option.splits)
next
  fix chatId
  assume "selectedChatId s = Some chatId \<and> chatId \<noteq> []
        \<and> net (requestBody 1 500 chatId) = OkJson JNull"
  then have "fetchDocuments net (selectedChatId s) 1 500
      = ([PostDocuments (requestBody 1 500 chatId)], Inr JNull)"
    by (simp add: fetchDocuments_selected)
  from loadInitialDocuments_on [OF this]
  show "snd (loadInitialDocuments net s) = s\<lparr>error := Some TypeError, isLoading := False\<rparr>"
    by (simp add: loadInitial_begin_def)
qed

theorem loadInitialDocuments_fetch_failure_witness:
  "snd (loadInitialDocuments (\<lambda>r. (FetchRejected :: nat response))
      (initial_dialog\<lparr>selectedChatId := Some ''c1'', documents := [1, 2], totalLoaded := 2\<rparr>))
    = initial_dialog\<lparr>selectedChatId := Some ''c1'', hasMore := False\<rparr>
   \<and> snd (loadInitialDocuments (\<lambda>r. (OkJson JNull :: nat response))
      (initial_dialog\<lparr>selectedChatId := Some ''c1'', documents := [1, 2], totalLoaded := 2\<rparr>))
    = initial_dialog\<lparr>selectedChatId := Some ''c1'', documents := [1, 2], totalLoaded := 2,
        error := Some TypeError\<rparr>"
  using loadInitialDocuments_fetch_failure
    [of "initial_dialog\<lparr>selectedChatId := Some ''c1'', documents := [1, 2], totalLoaded := 2\<rparr>"
        "\<lambda>r. (FetchRejected :: nat response)"]
    loadInitialDocuments_fetch_failure
    [of "initial_dialog\<lparr>selectedChatId := Some ''c1'', documents := [1, 2], totalLoaded := 2\<rparr>"
        "\<lambda>r. (OkJson JNull :: nat response)"]
  by (simp add: initial_dialog_def)

theorem loadInitialDocuments_fetch_failure_counterexample:
  "error (snd (loadInitialDocuments (\<lambda>r. (FetchRejected :: nat response))
      (initial_dialog\<lparr>selectedChatId := Some ''c1'', documents := [1, 2], totalLoaded := 2\<rparr>)))
    = None
   \<and> documents (snd (loadInitialDocuments (\<lambda>r. (FetchRejected :: nat response))
      (initial_dialog\<lparr>selectedChatId := Some ''c1'', documents := [1, 2], totalLoaded := 2\<rparr>)))
    = []
   \<and> error (snd (loadInitialDocuments (\<lambda>r. (NotOk 500 None :: nat response))
      (initial_dialog\<lparr>selectedChatId := Some ''c1'', documents := [1, 2], totalLoaded := 2\<rparr>)))
    = None
   \<and> documents (snd (loadInitialDocuments (\<lambda>r. (NotOk 500 None :: nat response))
      (initial_dialog\<lparr>selectedChatId := Some ''c1'', documents := [1, 2], totalLoaded := 2\<rparr>)))
    = []
   \<and> documents
      (initial_dialog\<lparr>selectedChatId := Some ''c1'', documents := [1, 2 :: nat], totalLoaded := 2\<rparr>)
    = [1, 2]"
  by (simp add: loadInitialDocuments_def loadInitial_begin_def fetchDocuments_def
      fetchDocuments_try_def emptyResult_def initial_dialog_def Let_def)













section \<open>The chat list\<close>















lemma consistent_subset: "consistent cmp S \<Longrightarrow> T \<subseteq> S \<Longrightarrow> consistent cmp T"
  unfolding consistent_def by blast

























section \<open>The selection\<close>








end
